theory Spec2Isabelle
  imports Main "HOL-Library.Multiset"
begin

section \<open>The storage layer of ModernCart (server/storage.ts)\<close>

text \<open>
  \<open>DatabaseStorage\<close> maps every operation to one or two statements that the ORM sends to
  PostgreSQL. The embedding keeps the database as a value: each table is the list of its
  rows in table order, a \<open>select\<close> is a \<open>filter\<close>, an \<open>update ... where\<close> is a \<open>map\<close> that
  rewrites the rows the condition selects, an \<open>insert\<close> appends a row whose id comes from
  the table's sequence, and \<open>returning()\<close> is the list of rows the statement wrote.

  A statement that the ORM or the database rejects makes the \<open>await\<close> throw and writes
  nothing. The rejections are part of the model, as error results, for the lookups by
  key, for \<open>updateProduct\<close> and for \<open>updateProductStock\<close>: an integer that does not fit an
  \<open>integer\<close> column, a slug that another product has, an update that sets no column. The
  other operations are described for the statements that the database executes. A lost
  connection is outside the model. JavaScript numbers are the integers among them.
\<close>

subsection \<open>Rows\<close>

text \<open>
  Modelled from the spec: the schema (\<open>shared/schema.ts\<close>) is not part of the sources.
  The columns are those the data model of the specification lists and those the storage
  code and its callers read. A column that may hold \<open>NULL\<close> has an \<open>option\<close> type.
  A decimal column holds a whole number of its smallest unit; a timestamp is a point on
  an integer time line.
\<close>

type_synonym decimal = int
type_synonym timestamp = int

record user =
  u_id :: int
  u_username :: string
  u_email :: string
  u_password :: string
  u_role :: string

record category =
  c_id :: int
  c_name :: string
  c_slug :: string

record product =
  p_id :: int
  p_name :: string
  p_slug :: string
  p_description :: "string option"
  p_price :: decimal
  p_originalPrice :: "decimal option"
  p_imageUrl :: string
  p_categoryId :: "int option"
  p_stock :: int
  p_isFeatured :: bool
  p_isActive :: bool
  p_rating :: "decimal option"
  p_reviewCount :: "int option"
  p_createdAt :: timestamp

record cart_item =
  ci_id :: int
  ci_userId :: int
  ci_productId :: int
  ci_quantity :: int

record order =
  o_id :: int
  o_userId :: int
  o_total :: decimal
  o_status :: string
  o_shippingAddress :: string
  o_paymentMethod :: string
  o_createdAt :: timestamp

record order_item =
  oi_id :: int
  oi_orderId :: int
  oi_productId :: int
  oi_quantity :: int
  oi_price :: decimal

subsection \<open>The database\<close>

record db =
  users :: "user list"
  categories :: "category list"
  products :: "product list"
  cartItems :: "cart_item list"
  orders :: "order list"
  orderItems :: "order_item list"
  cartItemsSeq :: int
  orderItemsSeq :: int

subsection \<open>Rejected statements\<close>

text \<open>
  What makes a statement fail: a number outside the range of an \<open>integer\<close> column
  (PostgreSQL's \<open>integer out of range\<close>), a value that a unique key already holds, and the
  ORM's refusal to build an \<open>update\<close> that sets no column (\<open>No values to set\<close>).
\<close>

datatype db_error = OutOfRange | UniqueViolation | NoValuesToSet

text \<open>
  Modelled from the spec: ids, stock, quantities and counts of reviews are \<open>integer\<close>
  columns, which hold 32 bits. A parameter compared with such a column, or assigned to
  it, is read as an \<open>integer\<close> too.
\<close>

definition int4 :: "int \<Rightarrow> bool" where
  "int4 n \<longleftrightarrow> - 2147483648 \<le> n \<and> n \<le> 2147483647"


subsection \<open>Reading the result of a statement\<close>

text \<open>
  \<open>const [row] = await ...\<close> binds the first row of the result, or \<open>undefined\<close> when the
  result is empty. A row is an object, hence truthy, so \<open>row || undefined\<close> is \<open>row\<close>.
\<close>

fun first_row :: "'a list \<Rightarrow> 'a option" where
  "first_row [] = None"
| "first_row (r # rs) = Some r"

text \<open>\<open>x || d\<close> on a number: \<open>0\<close> is falsy.\<close>

definition js_or :: "int \<Rightarrow> int \<Rightarrow> int" where
  "js_or x d = (if x = 0 then d else x)"

text \<open>\<open>x || d\<close> on an optional number: \<open>undefined\<close> and \<open>0\<close> are falsy.\<close>

fun js_or_opt :: "int option \<Rightarrow> int \<Rightarrow> int" where
  "js_or_opt None d = d"
| "js_or_opt (Some x) d = js_or x d"

subsection \<open>Lookup by key\<close>







subsection \<open>Listing products\<close>

text \<open>
  \<open>name ILIKE '%' || search || '%'\<close>: PostgreSQL's pattern match, with \<open>%\<close> for any run of
  characters, \<open>_\<close> for any one character and the backslash quoting the character after it,
  on the lower-cased text and pattern. The model is of ASCII text: it folds the letters
  \<open>A\<close> to \<open>Z\<close> and no other.
\<close>

definition ascii_lower :: "char \<Rightarrow> char" where
  "ascii_lower c =
     (let n = (of_char c :: nat) in if 65 \<le> n \<and> n \<le> 90 then char_of (n + 32) else c)"

fun like :: "string \<Rightarrow> string \<Rightarrow> bool" where
  "like s [] = (s = [])"
| "like s (c # pat) =
     (if c = CHR ''%'' then
        (like s pat \<or> (case s of [] \<Rightarrow> False | x # s' \<Rightarrow> like s' (c # pat)))
      else if c = CHR ''_'' then
        (case s of [] \<Rightarrow> False | x # s' \<Rightarrow> like s' pat)
      else if c = CHR 0x5C then
        (case pat of [] \<Rightarrow> False
         | e # pat' \<Rightarrow> (case s of [] \<Rightarrow> False | x # s' \<Rightarrow> x = e \<and> like s' pat'))
      else
        (case s of [] \<Rightarrow> False | x # s' \<Rightarrow> x = c \<and> like s' pat))"

definition ilike :: "string \<Rightarrow> string \<Rightarrow> bool" where
  "ilike s pat = like (map ascii_lower s) (map ascii_lower pat)"

text \<open>
  \<open>orderBy(desc(col))\<close>: the rows by falling \<open>col\<close>. The query names no second column, so
  PostgreSQL is free to produce rows of equal \<open>col\<close> in any order, and in another order in
  the next query. That choice is the parameter \<open>tie\<close> of the query: rows of equal \<open>col\<close>
  come by rising \<open>tie\<close> (and in table order where \<open>tie\<close> is equal too). Both sorts are
  stable.
\<close>

definition order_by_desc :: "('a \<Rightarrow> int) \<Rightarrow> ('a \<Rightarrow> int) \<Rightarrow> 'a list \<Rightarrow> 'a list" where
  "order_by_desc tie col rows = sort_key (\<lambda>r. - col r) (sort_key tie rows)"

text \<open>
  The place of a row in a listing. As a \<open>tie\<close> it reproduces the listing, so that every
  order the database may choose is the order of some \<open>tie\<close>.
\<close>

definition position :: "'a list \<Rightarrow> 'a \<Rightarrow> int" where
  "position ys r = int (length (takeWhile (\<lambda>x. x \<noteq> r) ys))"

text \<open>A parameter with a default, \<open>limit: number = 20\<close>: the default stands in for \<open>undefined\<close>.\<close>

fun default_arg :: "'a option \<Rightarrow> 'a \<Rightarrow> 'a" where
  "default_arg None d = d"
| "default_arg (Some x) d = x"

text \<open>
  \<open>getProducts\<close> collects its conditions in a list and joins them with \<open>and\<close>. A
  \<open>categoryId\<close> of \<open>0\<close> and an empty \<open>search\<close> are falsy and add no condition.
\<close>

definition getProducts ::
    "(product \<Rightarrow> int) \<Rightarrow> nat option \<Rightarrow> nat option \<Rightarrow> int option \<Rightarrow> string option \<Rightarrow> db
       \<Rightarrow> product list" where
  "getProducts tie limit offset categoryId search s =
     (let conditions =
            [\<lambda>p. p_isActive p]
            @ (case categoryId of None \<Rightarrow> []
               | Some c \<Rightarrow> if c = 0 then [] else [\<lambda>p. p_categoryId p = Some c])
            @ (case search of None \<Rightarrow> []
               | Some q \<Rightarrow> if q = [] then [] else [\<lambda>p. ilike (p_name p) (''%'' @ q @ ''%'')])
      in take (default_arg limit 20) (drop (default_arg offset 0)
           (order_by_desc tie p_createdAt
              (filter (\<lambda>p. list_all (\<lambda>c. c p) conditions) (products s)))))"

text \<open>
  The rows that a listing may show, in the words of the specification: the active
  products, of the category when one is given, whose name contains the search text when
  one is given.
\<close>

definition eligible :: "int option \<Rightarrow> string option \<Rightarrow> product \<Rightarrow> bool" where
  "eligible categoryId search p \<longleftrightarrow>
     p_isActive p
     \<and> (case categoryId of None \<Rightarrow> True
        | Some c \<Rightarrow> if c = 0 then True else p_categoryId p = Some c)
     \<and> (case search of None \<Rightarrow> True
        | Some q \<Rightarrow> if q = [] then True else ilike (p_name p) (''%'' @ q @ ''%''))"

definition getFeaturedProducts :: "(product \<Rightarrow> int) \<Rightarrow> nat option \<Rightarrow> db \<Rightarrow> product list" where
  "getFeaturedProducts tie limit s =
     take (default_arg limit 8)
       (order_by_desc tie p_createdAt
          (filter (\<lambda>p. p_isActive p \<and> p_isFeatured p) (products s)))"

subsection \<open>Updating products\<close>







text \<open>
  \<open>update(t).set(f).where(c).returning()\<close>: the rows that \<open>c\<close> selects are rewritten by \<open>f\<close>,
  and the statement returns them as rewritten.
\<close>

definition update_where :: "('a \<Rightarrow> bool) \<Rightarrow> ('a \<Rightarrow> 'a) \<Rightarrow> 'a list \<Rightarrow> 'a list" where
  "update_where c f rows = map (\<lambda>r. if c r then f r else r) rows"

definition returning :: "('a \<Rightarrow> bool) \<Rightarrow> ('a \<Rightarrow> 'a) \<Rightarrow> 'a list \<Rightarrow> 'a list" where
  "returning c f rows = map f (filter c rows)"


subsection \<open>Stock\<close>

text \<open>
  \<open>updateProductStock\<close> sends one statement,
  \<open>update products set stock = stock - quantity where id = ident\<close>: the subtraction is
  part of the statement and is done by the database on the stock it holds when the
  statement runs. A statement is one step of the database. The code reads no stock
  beforehand.
\<close>

datatype stock_statement = UpdateStockMinus int int

text \<open>
  The step of the statement \<open>UpdateStockMinus quantity ident\<close>. The parameters must fit
  an \<open>integer\<close>, and so must the new stock of every row with the id; otherwise the
  statement is rejected and writes nothing.
\<close>

fun exec_stock :: "stock_statement \<Rightarrow> db \<Rightarrow> db_error + db" where
  "exec_stock (UpdateStockMinus quantity ident) s =
     (if \<not> int4 quantity \<or> \<not> int4 ident then Inl OutOfRange
      else if list_ex (\<lambda>p. p_id p = ident \<and> \<not> int4 (p_stock p - quantity)) (products s)
        then Inl OutOfRange
      else Inr (s\<lparr> products :=
                     update_where (\<lambda>p. p_id p = ident)
                       (\<lambda>p. p\<lparr> p_stock := p_stock p - quantity \<rparr>) (products s) \<rparr>))"

text \<open>
  What the statement needs to go through: the parameters fit an \<open>integer\<close>, and so
  does the new stock of every product with the id.
\<close>

definition stock_fits :: "int \<Rightarrow> int \<Rightarrow> db \<Rightarrow> bool" where
  "stock_fits ident quantity s \<longleftrightarrow>
     int4 quantity \<and> int4 ident
     \<and> list_all (\<lambda>p. p_id p = ident \<longrightarrow> int4 (p_stock p - quantity)) (products s)"

text \<open>Statements one after the other, up to the first that is rejected.\<close>

fun run_statements :: "stock_statement list \<Rightarrow> db \<Rightarrow> db_error + db" where
  "run_statements [] s = Inr s"
| "run_statements (st # sts) s =
     (case exec_stock st s of Inl e \<Rightarrow> Inl e | Inr s' \<Rightarrow> run_statements sts s')"

definition updateProductStock_statements :: "int \<Rightarrow> int \<Rightarrow> stock_statement list" where
  "updateProductStock_statements ident quantity = [UpdateStockMinus quantity ident]"

definition updateProductStock :: "int \<Rightarrow> int \<Rightarrow> db \<Rightarrow> db_error + db" where
  "updateProductStock ident quantity s =
     run_statements (updateProductStock_statements ident quantity) s"

text \<open>
  The orders in which the database may run the statements of two calls that are under
  way at the same time: every interleaving that keeps the order of each call.
\<close>

fun interleavings :: "'a list \<Rightarrow> 'a list \<Rightarrow> 'a list list" where
  "interleavings [] ys = [ys]"
| "interleavings (x # xs) [] = [x # xs]"
| "interleavings (x # xs) (y # ys) =
     map ((#) x) (interleavings xs (y # ys)) @ map ((#) y) (interleavings (x # xs) ys)"

subsection \<open>The cart\<close>

text \<open>
  \<open>InsertCartItem\<close>: the quantity may be left out; the column's default is then stored.
  Modelled from the spec: the default quantity is 1.
\<close>

record insert_cart_item =
  ici_userId :: int
  ici_productId :: int
  ici_quantity :: "int option"

definition addToCart :: "insert_cart_item \<Rightarrow> db \<Rightarrow> cart_item option \<times> db" where
  "addToCart cartItem s =
     (case first_row (filter (\<lambda>c. ci_userId c = ici_userId cartItem
                                 \<and> ci_productId c = ici_productId cartItem) (cartItems s)) of
        Some existingItem \<Rightarrow>
          (let quantity = js_or (ci_quantity existingItem) 0 + js_or_opt (ici_quantity cartItem) 1;
               c = (\<lambda>r. ci_id r = ci_id existingItem);
               f = (\<lambda>r. r\<lparr> ci_quantity := quantity \<rparr>)
           in (first_row (returning c f (cartItems s)),
               s\<lparr> cartItems := update_where c f (cartItems s) \<rparr>))
      | None \<Rightarrow>
          (let newItem = \<lparr> ci_id = cartItemsSeq s + 1,
                           ci_userId = ici_userId cartItem,
                           ci_productId = ici_productId cartItem,
                           ci_quantity = default_arg (ici_quantity cartItem) 1 \<rparr>
           in (first_row [newItem],
               s\<lparr> cartItems := cartItems s @ [newItem],
                  cartItemsSeq := cartItemsSeq s + 1 \<rparr>)))"

text \<open>The lines of one user for one product.\<close>

definition cart_lines :: "int \<Rightarrow> int \<Rightarrow> db \<Rightarrow> cart_item list" where
  "cart_lines u p s = filter (\<lambda>c. ci_userId c = u \<and> ci_productId c = p) (cartItems s)"

subsection \<open>Orders\<close>

text \<open>
  The items of an order, each with the product it names: a left join, so an item whose
  product is gone comes with no product.
\<close>

definition items_of_order :: "int \<Rightarrow> db \<Rightarrow> (order_item \<times> product option) list" where
  "items_of_order ident s =
     concat (map (\<lambda>i. case filter (\<lambda>p. oi_productId i = p_id p) (products s) of
                         [] \<Rightarrow> [(i, None)]
                       | p # ps \<Rightarrow> map (\<lambda>q. (i, Some q)) (p # ps))
                 (filter (\<lambda>i. oi_orderId i = ident) (orderItems s)))"

text \<open>\<open>if (userId)\<close>: an absent \<open>userId\<close> and the number \<open>0\<close> are falsy.\<close>

definition getOrders ::
    "(order \<Rightarrow> int) \<Rightarrow> int option \<Rightarrow> nat option \<Rightarrow> nat option \<Rightarrow> db
       \<Rightarrow> (order \<times> (order_item \<times> product option) list) list" where
  "getOrders tie userId limit offset s =
     (let orderList =
            (if js_or_opt userId 0 \<noteq> 0 then
               take (default_arg limit 20) (drop (default_arg offset 0)
                 (order_by_desc tie o_createdAt
                    (filter (\<lambda>ord. Some (o_userId ord) = userId) (orders s))))
             else
               take (default_arg limit 20) (drop (default_arg offset 0)
                 (order_by_desc tie o_createdAt (orders s))))
      in map (\<lambda>ord. (ord, items_of_order (o_id ord) s)) orderList)"




subsection \<open>Statistics\<close>

text \<open>
  The text of a decimal with \<open>scale\<close> digits after the point, as PostgreSQL prints it:
  the value 12345 at scale 2 reads 123.45.
\<close>

definition digit_char :: "nat \<Rightarrow> char" where
  "digit_char d = char_of (48 + d)"

fun show_nat :: "nat \<Rightarrow> string" where
  "show_nat n = (if n < 10 then [digit_char n] else show_nat (n div 10) @ [digit_char (n mod 10)])"

declare show_nat.simps [simp del]

definition show_decimal :: "nat \<Rightarrow> decimal \<Rightarrow> string" where
  "show_decimal scale v =
     (let m = nat \<bar>v\<bar>;
          whole = show_nat (m div 10 ^ scale);
          frac = show_nat (m mod 10 ^ scale)
      in (if v < 0 then ''-'' else []) @ whole
         @ (if scale = 0 then []
            else ''.'' @ replicate (scale - length frac) (CHR ''0'') @ frac))"

text \<open>\<open>sum(col)\<close> over no row is \<open>NULL\<close>.\<close>

fun sql_sum :: "int list \<Rightarrow> int option" where
  "sql_sum [] = None"
| "sql_sum (x # xs) = Some (sum_list (x # xs))"

text \<open>
  What \<open>getOrderStats\<close> holds in its hands: a number or a text. \<open>count(*)\<close> is a \<open>bigint\<close>,
  and the driver hands a \<open>bigint\<close> over as the text of its digits; the annotation
  \<open>sql<number>\<close> converts nothing.
\<close>

datatype js_value = Num int | Str string

definition sql_count :: "'a list \<Rightarrow> js_value" where
  "sql_count rows = Str (show_nat (length rows))"

text \<open>\<open>x || d\<close> on such a value: the number \<open>0\<close> and the empty text are falsy.\<close>

fun js_or_value :: "js_value \<Rightarrow> js_value \<Rightarrow> js_value" where
  "js_or_value (Num n) d = (if n = 0 then d else Num n)"
| "js_or_value (Str t) d = (if t = [] then d else Str t)"

text \<open>\<open>x || d\<close> on a string that may be \<open>null\<close>: \<open>null\<close> and the empty string are falsy.\<close>

fun js_or_str :: "string option \<Rightarrow> string \<Rightarrow> string" where
  "js_or_str None d = d"
| "js_or_str (Some x) d = (if x = [] then d else x)"

record order_stats =
  totalOrders :: js_value
  totalRevenue :: string
  totalProducts :: js_value
  totalCustomers :: js_value

text \<open>
  The scale of the column \<open>orders.total\<close> is declared in the schema, which is not part of
  the sources: it is the parameter \<open>scale\<close>.
\<close>

definition getOrderStats :: "nat \<Rightarrow> db \<Rightarrow> order_stats" where
  "getOrderStats scale s =
     (let orderStats_totalOrders = sql_count (orders s);
          orderStats_totalRevenue = map_option (show_decimal scale) (sql_sum (map o_total (orders s)));
          productStats_totalProducts = sql_count (products s);
          customerStats_totalCustomers = sql_count (filter (\<lambda>u. u_role u = ''user'') (users s))
      in \<lparr> totalOrders = js_or_value orderStats_totalOrders (Num 0),
           totalRevenue = js_or_str orderStats_totalRevenue ''0'',
           totalProducts = js_or_value productStats_totalProducts (Num 0),
           totalCustomers = js_or_value customerStats_totalCustomers (Num 0) \<rparr>)"

subsection \<open>A sample database\<close>

text \<open>
  Five products, the fourth of them inactive, two users, one cart line and two orders:
  the concrete state on which the properties below are exercised.
\<close>

definition alice :: user where
  "alice = \<lparr> u_id = 1, u_username = ''alice'', u_email = ''alice@example.org'',
             u_password = ''x'', u_role = ''user'' \<rparr>"

definition root_user :: user where
  "root_user = \<lparr> u_id = 2, u_username = ''admin'', u_email = ''admin@example.org'',
                 u_password = ''y'', u_role = ''admin'' \<rparr>"

definition shoes :: category where
  "shoes = \<lparr> c_id = 1, c_name = ''Shoes'', c_slug = ''shoes'' \<rparr>"

definition sample_product :: "int \<Rightarrow> string \<Rightarrow> string \<Rightarrow> bool \<Rightarrow> bool \<Rightarrow> timestamp \<Rightarrow> product" where
  "sample_product ident name slug featured active created =
     \<lparr> p_id = ident, p_name = name, p_slug = slug, p_description = None, p_price = 1999,
       p_originalPrice = None, p_imageUrl = ''https://example.org/p.png'',
       p_categoryId = Some 1, p_stock = 10, p_isFeatured = featured, p_isActive = active,
       p_rating = None, p_reviewCount = None, p_createdAt = created \<rparr>"

definition red_shoe :: product where
  "red_shoe = sample_product 1 ''Red Shoe'' ''red-shoe'' True True 100"

definition blue_shoe :: product where
  "blue_shoe = sample_product 2 ''Blue Shoe'' ''blue-shoe'' False True 200"

definition green_boot :: product where
  "green_boot = sample_product 3 ''Green Boot'' ''green-boot'' True True 300"

definition old_clog :: product where
  "old_clog = sample_product 4 ''Old Clog'' ''old-clog'' True False 400"

definition black_pump :: product where
  "black_pump = sample_product 5 ''Black Pump'' ''black-pump'' False True 500"

definition line1 :: cart_item where
  "line1 = \<lparr> ci_id = 1, ci_userId = 1, ci_productId = 5, ci_quantity = 2 \<rparr>"

definition order1 :: order where
  "order1 = \<lparr> o_id = 1, o_userId = 1, o_total = 4317, o_status = ''pending'',
              o_shippingAddress = ''1 Main Street'', o_paymentMethod = ''card'',
              o_createdAt = 600 \<rparr>"

definition order2 :: order where
  "order2 = \<lparr> o_id = 2, o_userId = 2, o_total = 1999, o_status = ''completed'',
              o_shippingAddress = ''2 Side Street'', o_paymentMethod = ''paypal'',
              o_createdAt = 700 \<rparr>"

definition item1 :: order_item where
  "item1 = \<lparr> oi_id = 1, oi_orderId = 1, oi_productId = 1, oi_quantity = 2, oi_price = 1999 \<rparr>"

definition sample_db :: db where
  "sample_db =
     \<lparr> users = [alice, root_user],
       categories = [shoes],
       products = [red_shoe, blue_shoe, green_boot, old_clog, black_pump],
       cartItems = [line1],
       orders = [order1, order2],
       orderItems = [item1],
       cartItemsSeq = 1,
       orderItemsSeq = 1 \<rparr>"

text \<open>The same database with no cart line and no order.\<close>

definition fresh_db :: db where
  "fresh_db = sample_db \<lparr> cartItems := [], orders := [], orderItems := [],
                           cartItemsSeq := 0, orderItemsSeq := 0 \<rparr>"

text \<open>Four active products created at the same instant.\<close>

definition tied_db :: db where
  "tied_db = fresh_db \<lparr> products :=
     [sample_product 1 ''North'' ''north'' False True 100,
      sample_product 2 ''East'' ''east'' False True 100,
      sample_product 3 ''South'' ''south'' False True 100,
      sample_product 4 ''West'' ''west'' False True 100] \<rparr>"




section \<open>Properties\<close>

text \<open>The rows of the sample database, unfolded.\<close>

lemmas sample_rows =
  alice_def root_user_def shoes_def sample_product_def red_shoe_def blue_shoe_def
  green_boot_def old_clog_def black_pump_def line1_def order1_def order2_def item1_def


subsection \<open>Lookups\<close>



lemma filter_key_unique:
  "distinct (map key rs) \<Longrightarrow> r \<in> set rs \<Longrightarrow> filter (\<lambda>x. key x = key r) rs = [r]"
proof (induction rs)
  case Nil
  then show ?case by simp
next
  case (Cons x rs)
  show ?case
  proof (cases "x = r")
    case True
    with Cons.prems have "\<forall>y \<in> set rs. key y \<noteq> key r" by (auto simp: image_iff)
    then have "filter (\<lambda>x. key x = key r) rs = []" by (simp add: filter_empty_conv)
    with True show ?thesis by simp
  next
    case False
    with Cons.prems have "r \<in> set rs" and "key x \<noteq> key r"
      by (auto simp: image_iff)
    with Cons show ?thesis by simp
  qed
qed





lemma length_update_where: "length (update_where c f rs) = length rs"
  by (simp add: update_where_def)

lemma nth_update_where:
  "k < length rs \<Longrightarrow> update_where c f rs ! k = (if c (rs ! k) then f (rs ! k) else rs ! k)"
  by (simp add: update_where_def)


lemma first_row_returning:
  "first_row (returning c f rs) = map_option f (first_row (filter c rs))"
  by (cases "filter c rs") (simp_all add: returning_def)

subsection \<open>Stock\<close>

lemma exec_stock_fits:
  "stock_fits i q s \<Longrightarrow>
   exec_stock (UpdateStockMinus q i) s =
     Inr (s\<lparr> products := update_where (\<lambda>p. p_id p = i)
                 (\<lambda>p. p\<lparr> p_stock := p_stock p - q \<rparr>) (products s) \<rparr>)"
  by (auto simp: stock_fits_def list_ex_iff list_all_iff)

lemma exec_stock_rejected:
  "\<not> stock_fits i q s \<Longrightarrow> exec_stock (UpdateStockMinus q i) s = Inl OutOfRange"
  by (auto simp: stock_fits_def list_ex_iff list_all_iff)

text \<open>
  Claim C3, as amended. \<open>updateProductStock i q\<close> is a single statement, an update that
  subtracts \<open>q\<close> from the stored stock. When \<open>i\<close> and \<open>q\<close> fit an \<open>integer\<close> and so does the
  new stock of every product with the id, it rewrites the table of products row by row: a
  row whose id is \<open>i\<close> has its stock set to the stored stock minus \<open>q\<close>, whatever the sign of
  the result (it is negative as soon as \<open>q\<close> exceeds the stored stock), and keeps every
  other column; every other row, and every other table, is as before. Otherwise the
  database rejects the statement, and nothing is written.
\<close>

theorem updateProductStock_exact:
  "updateProductStock_statements i q = [UpdateStockMinus q i]
   \<and> (stock_fits i q s \<longrightarrow>
        (\<exists>s'. updateProductStock i q s = Inr s'
           \<and> length (products s') = length (products s)
           \<and> (k < length (products s) \<longrightarrow>
                (let old = products s ! k; new = products s' ! k
                 in if p_id old = i
                    then p_stock new = p_stock old - q
                         \<and> new\<lparr> p_stock := p_stock old \<rparr> = old
                         \<and> (p_stock old < q \<longrightarrow> p_stock new < 0)
                    else new = old))
           \<and> s' = s\<lparr> products := products s' \<rparr>))
   \<and> (\<not> stock_fits i q s \<longrightarrow> updateProductStock i q s = Inl OutOfRange)"
proof -
  have one: "updateProductStock_statements i q = [UpdateStockMinus q i]"
    by (simp add: updateProductStock_statements_def)
  have run: "updateProductStock i q s = exec_stock (UpdateStockMinus q i) s"
    by (simp add: updateProductStock_def one split: sum.splits)
  have ok: "\<exists>s'. updateProductStock i q s = Inr s'
           \<and> length (products s') = length (products s)
           \<and> (k < length (products s) \<longrightarrow>
                (let old = products s ! k; new = products s' ! k
                 in if p_id old = i
                    then p_stock new = p_stock old - q
                         \<and> new\<lparr> p_stock := p_stock old \<rparr> = old
                         \<and> (p_stock old < q \<longrightarrow> p_stock new < 0)
                    else new = old))
           \<and> s' = s\<lparr> products := products s' \<rparr>"
    if "stock_fits i q s"
    unfolding run exec_stock_fits [OF that]
    by (simp add: length_update_where nth_update_where Let_def)
  have bad: "updateProductStock i q s = Inl OutOfRange" if "\<not> stock_fits i q s"
    unfolding run using that by (rule exec_stock_rejected)
  from one ok bad show ?thesis by blast
qed

theorem updateProductStock_exact_witness:
  "stock_fits 1 15 sample_db
   \<and> p_stock (products sample_db ! 0) = 10
   \<and> (\<exists>s'. updateProductStock 1 15 sample_db = Inr s'
         \<and> p_stock (products s' ! 0) = - 5
         \<and> (products s' ! 0) \<lparr> p_stock := 10 \<rparr> = red_shoe
         \<and> products s' ! 1 = blue_shoe)
   \<and> \<not> stock_fits 1 (- 2147483647) sample_db
   \<and> updateProductStock 1 (- 2147483647) sample_db = Inl OutOfRange"
proof -
  have a: "products sample_db = [red_shoe, blue_shoe, green_boot, old_clog, black_pump]"
    by (simp add: sample_db_def)
  have b: "p_id red_shoe = 1" "p_stock red_shoe = 10" "p_id blue_shoe = 2"
      "p_id green_boot = 3" "p_id old_clog = 4" "p_id black_pump = 5"
    by (simp_all add: sample_rows)
  have fits: "stock_fits 1 15 sample_db"
    by (simp add: stock_fits_def a b int4_def)
  have unfit: "\<not> stock_fits 1 (- 2147483647) sample_db"
    by (simp add: stock_fits_def a b int4_def)
  note T0 = updateProductStock_exact [where i = 1 and q = 15 and s = sample_db and k = 0]
  note T1 = updateProductStock_exact [where i = 1 and q = 15 and s = sample_db and k = 1]
  note T2 = updateProductStock_exact [where i = 1 and q = "- 2147483647" and s = sample_db
      and k = 0]
  from T0 fits obtain s0 where s0: "updateProductStock 1 15 sample_db = Inr s0"
    and r0: "0 < length (products sample_db) \<longrightarrow>
                (let old = products sample_db ! 0; new = products s0 ! 0
                 in if p_id old = 1
                    then p_stock new = p_stock old - 15
                         \<and> new\<lparr> p_stock := p_stock old \<rparr> = old
                         \<and> (p_stock old < 15 \<longrightarrow> p_stock new < 0)
                    else new = old)"
    by blast
  from T1 fits obtain s1 where s1: "updateProductStock 1 15 sample_db = Inr s1"
    and r1: "1 < length (products sample_db) \<longrightarrow>
                (let old = products sample_db ! 1; new = products s1 ! 1
                 in if p_id old = 1
                    then p_stock new = p_stock old - 15
                         \<and> new\<lparr> p_stock := p_stock old \<rparr> = old
                         \<and> (p_stock old < 15 \<longrightarrow> p_stock new < 0)
                    else new = old)"
    by blast
  from s0 s1 have same: "s1 = s0" by simp
  from r0 have e0: "p_stock (products s0 ! 0) = - 5"
      "(products s0 ! 0) \<lparr> p_stock := 10 \<rparr> = red_shoe"
    by (simp_all add: a b Let_def)
  from r1 have e1: "products s0 ! 1 = blue_shoe"
    unfolding same by (simp add: a b Let_def)
  from T2 unfit have rej: "updateProductStock 1 (- 2147483647) sample_db = Inl OutOfRange"
    by blast
  have st: "p_stock (products sample_db ! 0) = 10" by (simp add: a b)
  from fits st s0 e0 e1 unfit rej show ?thesis by blast
qed

theorem updateProductStock_range_counterexample:
  "p_id red_shoe = 1 \<and> p_stock red_shoe = 10
   \<and> red_shoe \<in> set (products sample_db)
   \<and> updateProductStock 1 (- 2147483647) sample_db = Inl OutOfRange"
  by (simp add: updateProductStock_def updateProductStock_statements_def sample_db_def
      sample_rows int4_def)

text \<open>
  No decrement is lost: two calls for the same product that are under way at the same
  time run their statements in one of two orders, and each order leaves the stored stock
  minus both quantities.
\<close>

lemma decrement_twice:
  "update_where (\<lambda>p. p_id p = i) (\<lambda>p. p\<lparr> p_stock := p_stock p - b \<rparr>)
     (update_where (\<lambda>p. p_id p = i) (\<lambda>p. p\<lparr> p_stock := p_stock p - a \<rparr>) rows)
   = update_where (\<lambda>p. p_id p = i) (\<lambda>p. p\<lparr> p_stock := p_stock p - a - b \<rparr>) rows"
  by (induction rows) (simp_all add: update_where_def)

lemma two_decrements:
  assumes "int4 i" "int4 a" "int4 b"
    and "\<forall>p \<in> set (products s). p_id p = i \<longrightarrow> int4 (p_stock p - a) \<and> int4 (p_stock p - a - b)"
  shows "run_statements [UpdateStockMinus a i, UpdateStockMinus b i] s =
      Inr (s\<lparr> products := update_where (\<lambda>p. p_id p = i)
                 (\<lambda>p. p\<lparr> p_stock := p_stock p - a - b \<rparr>) (products s) \<rparr>)"
proof -
  let ?s1 = "s\<lparr> products := update_where (\<lambda>p. p_id p = i)
                 (\<lambda>p. p\<lparr> p_stock := p_stock p - a \<rparr>) (products s) \<rparr>"
  from assms have f1: "stock_fits i a s"
    by (simp add: stock_fits_def list_all_iff)
  have "int4 (p_stock p' - b)" if "p' \<in> set (products ?s1)" "p_id p' = i" for p'
  proof -
    from that(1) obtain p where p: "p \<in> set (products s)"
      and p': "p' = (if p_id p = i then p\<lparr> p_stock := p_stock p - a \<rparr> else p)"
      by (auto simp: update_where_def)
    from that(2) p' have "p_id p = i" by (simp split: if_splits)
    with p p' assms(4) show ?thesis by simp
  qed
  with assms(1,3) have f2: "stock_fits i b ?s1"
    by (simp add: stock_fits_def list_all_iff)
  have e1: "exec_stock (UpdateStockMinus a i) s = Inr ?s1"
    using f1 by (rule exec_stock_fits)
  have e2: "exec_stock (UpdateStockMinus b i) ?s1 =
      Inr (?s1\<lparr> products := update_where (\<lambda>p. p_id p = i)
                 (\<lambda>p. p\<lparr> p_stock := p_stock p - b \<rparr>) (products ?s1) \<rparr>)"
    using f2 by (rule exec_stock_fits)
  have "run_statements [UpdateStockMinus a i, UpdateStockMinus b i] s =
      exec_stock (UpdateStockMinus b i) ?s1"
    by (simp only: run_statements.simps e1 sum.case split: sum.splits) simp
  also have "\<dots> = Inr (s\<lparr> products := update_where (\<lambda>p. p_id p = i)
                 (\<lambda>p. p\<lparr> p_stock := p_stock p - a - b \<rparr>) (products s) \<rparr>)"
    unfolding e2 by (simp add: decrement_twice)
  finally show ?thesis .
qed

lemma interleaved_decrements:
  assumes "sched \<in> set (interleavings (updateProductStock_statements i q)
                         (updateProductStock_statements i q'))"
    and "int4 i" "int4 q" "int4 q'"
    and "\<forall>p \<in> set (products s). p_id p = i \<longrightarrow>
           int4 (p_stock p - q) \<and> int4 (p_stock p - q') \<and> int4 (p_stock p - q - q')"
  shows "run_statements sched s =
     Inr (s\<lparr> products := update_where (\<lambda>p. p_id p = i)
                 (\<lambda>p. p\<lparr> p_stock := p_stock p - q - q' \<rparr>) (products s) \<rparr>)"
proof -
  from assms(1) have "sched = [UpdateStockMinus q i, UpdateStockMinus q' i]
      \<or> sched = [UpdateStockMinus q' i, UpdateStockMinus q i]"
    by (simp add: updateProductStock_statements_def)
  then show ?thesis
  proof
    assume s1: "sched = [UpdateStockMinus q i, UpdateStockMinus q' i]"
    from assms(5) have "\<forall>p \<in> set (products s). p_id p = i \<longrightarrow>
        int4 (p_stock p - q) \<and> int4 (p_stock p - q - q')"
      by blast
    with assms(2,3,4) show ?thesis
      unfolding s1 by (rule two_decrements)
  next
    assume s2: "sched = [UpdateStockMinus q' i, UpdateStockMinus q i]"
    have swap: "x - q' - q = x - q - q'" for x :: int
      by simp
    from assms(5) have "\<forall>p \<in> set (products s). p_id p = i \<longrightarrow>
        int4 (p_stock p - q') \<and> int4 (p_stock p - q' - q)"
      by (simp add: swap)
    with assms(2,4,3) have "run_statements [UpdateStockMinus q' i, UpdateStockMinus q i] s =
      Inr (s\<lparr> products := update_where (\<lambda>p. p_id p = i)
                 (\<lambda>p. p\<lparr> p_stock := p_stock p - q' - q \<rparr>) (products s) \<rparr>)"
      by (rule two_decrements)
    then show ?thesis
      unfolding s2 by (simp add: swap)
  qed
qed


subsection \<open>Order status\<close>



subsection \<open>Partial update of a product\<close>






subsection \<open>Ordering and paging\<close>

lemma set_order_by_desc: "set (order_by_desc tie col rs) = set rs"
  by (simp add: order_by_desc_def)

lemma mset_order_by_desc: "mset (order_by_desc tie col rs) = mset rs"
  by (simp add: order_by_desc_def)

lemma length_order_by_desc: "length (order_by_desc tie col rs) = length rs"
  by (simp add: order_by_desc_def)

lemma distinct_order_by_desc: "distinct (order_by_desc tie col rs) = distinct rs"
  by (simp add: order_by_desc_def)

lemma sorted_order_by_desc: "sorted_wrt (\<lambda>a b. col b \<le> col a) (order_by_desc tie col rs)"
proof -
  have "sorted (map (\<lambda>r. - col r) (order_by_desc tie col rs))"
    unfolding order_by_desc_def by (rule sorted_sort_key)
  then show ?thesis by (simp add: sorted_map)
qed

lemma sorted_page:
  "sorted_wrt (\<lambda>a b. col b \<le> col a) (take n (drop m (order_by_desc tie col rs)))"
  by (intro sorted_wrt_take sorted_wrt_drop sorted_order_by_desc)

text \<open>
  The parameter \<open>tie\<close> leaves nothing out: every listing of the rows by falling \<open>col\<close> is
  the answer for some \<open>tie\<close>, namely the place of each row in that listing.
\<close>

lemma position_nth:
  assumes "distinct ys" "i < length ys"
  shows "position ys (ys ! i) = int i"
proof -
  have "takeWhile (\<lambda>x. x \<noteq> ys ! i) ys = take i ys"
  proof (rule takeWhile_eq_take_P_nth)
    fix j assume "j < i" "j < length ys"
    with assms show "ys ! j \<noteq> ys ! i"
      by (simp add: nth_eq_iff_index_eq)
  next
    show "\<not> ys ! i \<noteq> ys ! i" by simp
  qed
  with assms(2) show ?thesis
    by (simp add: position_def)
qed

lemma map_position: "distinct ys \<Longrightarrow> map (position ys) ys = map int [0..<length ys]"
  by (rule nth_equalityI) (simp_all add: position_nth)

lemma every_order_is_a_tie:
  assumes "mset ys = mset rs" "distinct rs" "sorted_wrt (\<lambda>a b. col b \<le> col a) ys"
  shows "order_by_desc (position ys) col rs = ys"
proof -
  from assms(1,2) have dys: "distinct ys"
    using mset_eq_imp_distinct_iff by blast
  have "distinct (map int [0..<length ys])"
    by (simp add: distinct_map inj_on_def)
  with dys have keys: "distinct (map (position ys) ys)"
    by (simp only: map_position)
  from assms(1) have "mset (map (position ys) rs) = mset (map (position ys) ys)"
    by simp
  then have "distinct (map (position ys) rs) = distinct (map (position ys) ys)"
    by (rule mset_eq_imp_distinct_iff)
  with keys have keys': "distinct (map (position ys) rs)"
    by blast
  from assms(1) have sets: "set ys = set rs"
    by (rule mset_eq_setD)
  have swap: "(\<lambda>x. position ys k = position ys x) = (\<lambda>x. position ys x = position ys k)" for k
    by (rule ext) (rule eq_commute)
  have same: "filter (\<lambda>x. position ys k = position ys x) ys
      = filter (\<lambda>x. position ys k = position ys x) rs" if "k \<in> set ys" for k
  proof -
    from keys that have a: "filter (\<lambda>x. position ys x = position ys k) ys = [k]"
      by (rule filter_key_unique)
    from that sets have "k \<in> set rs" by blast
    with keys' have b: "filter (\<lambda>x. position ys x = position ys k) rs = [k]"
      by (rule filter_key_unique)
    show ?thesis
      unfolding swap a b ..
  qed
  have "sorted (map int [0..<length ys])"
    by (simp only: sorted_map sorted_wrt_iff_nth_less) simp
  with dys have "sorted (map (position ys) ys)"
    by (simp only: map_position)
  with assms(1) same have first: "sort_key (position ys) rs = ys"
    by (rule properties_for_sort_key)
  from assms(3) have "sorted (map (\<lambda>r. - col r) ys)"
    by (simp only: sorted_map neg_le_iff_le)
  then show ?thesis
    unfolding order_by_desc_def first by (rule sort_key_id_if_sorted)
qed

subsection \<open>Listing orders\<close>

text \<open>
  Claim C9. For every limit and offset, \<open>getOrders\<close> with the user id \<open>0\<close> answers what it
  answers with no user id: the page of all the orders, of every user, by falling creation
  time, each with its items. The number \<open>0\<close> is falsy, so the filter on the user is not
  applied; it is applied for every other user id.
\<close>

theorem getOrders_user_zero:
  "getOrders tie (Some 0) lim off s = getOrders tie None lim off s
   \<and> map fst (getOrders tie (Some 0) lim off s) =
       take (default_arg lim 20) (drop (default_arg off 0)
         (order_by_desc tie o_createdAt (orders s)))
   \<and> mset (order_by_desc tie o_createdAt (orders s)) = mset (orders s)
   \<and> sorted_wrt (\<lambda>a b. o_createdAt b \<le> o_createdAt a)
        (map fst (getOrders tie (Some 0) lim off s))
   \<and> (u \<noteq> 0 \<longrightarrow>
        map fst (getOrders tie (Some u) lim off s) =
          take (default_arg lim 20) (drop (default_arg off 0)
            (order_by_desc tie o_createdAt (filter (\<lambda>r. o_userId r = u) (orders s)))))"
proof -
  have same: "getOrders tie (Some 0) lim off s = getOrders tie None lim off s"
    by (simp add: getOrders_def js_or_def)
  have all: "map fst (getOrders tie (Some 0) lim off s) =
       take (default_arg lim 20) (drop (default_arg off 0)
         (order_by_desc tie o_createdAt (orders s)))"
    by (simp add: getOrders_def js_or_def comp_def)
  have perm: "mset (order_by_desc tie o_createdAt (orders s)) = mset (orders s)"
    by (rule mset_order_by_desc)
  have srt: "sorted_wrt (\<lambda>a b. o_createdAt b \<le> o_createdAt a)
       (map fst (getOrders tie (Some 0) lim off s))"
    unfolding all by (rule sorted_page)
  have one: "u \<noteq> 0 \<longrightarrow>
        map fst (getOrders tie (Some u) lim off s) =
          take (default_arg lim 20) (drop (default_arg off 0)
            (order_by_desc tie o_createdAt (filter (\<lambda>r. o_userId r = u) (orders s))))"
    by (simp add: getOrders_def js_or_def comp_def)
  from same all perm srt one show ?thesis by blast
qed

theorem getOrders_user_zero_witness:
  "getOrders o_id (Some 0) None None sample_db
     = [(order2, []), (order1, [(item1, Some red_shoe)])]
   \<and> getOrders o_id None None None sample_db
     = [(order2, []), (order1, [(item1, Some red_shoe)])]
   \<and> o_userId order2 = 2 \<and> o_userId order1 = 1
   \<and> map fst (getOrders o_id (Some 1) None None sample_db) = [order1]"
proof -
  have a: "orders sample_db = [order1, order2]"
    by (simp add: sample_db_def)
  have b: "o_createdAt order1 = 600" "o_createdAt order2 = 700" "o_userId order2 = 2"
      "o_userId order1 = 1" "o_id order1 = 1" "o_id order2 = 2"
    by (simp_all add: sample_rows)
  have c: "order_by_desc o_id o_createdAt [order1, order2] = [order2, order1]"
      "order_by_desc o_id o_createdAt [order1] = [order1]"
    by (simp_all add: order_by_desc_def b)
  have d: "getOrders o_id None None None sample_db
      = [(order2, []), (order1, [(item1, Some red_shoe)])]"
    by (simp add: getOrders_def a c items_of_order_def, simp add: sample_db_def sample_rows)
  from getOrders_user_zero [where tie = o_id and lim = None and off = None and s = sample_db
      and u = 1]
  show ?thesis
    using d by (simp add: a b c)
qed

subsection \<open>Listing products\<close>

lemma getProducts_page:
  "getProducts tie lim off cat q s =
     take (default_arg lim 20) (drop (default_arg off 0)
       (order_by_desc tie p_createdAt (filter (eligible cat q) (products s))))"
proof -
  have "list_all (\<lambda>c. c p)
          ([\<lambda>p. p_isActive p]
           @ (case cat of None \<Rightarrow> []
              | Some c \<Rightarrow> if c = 0 then [] else [\<lambda>p. p_categoryId p = Some c])
           @ (case q of None \<Rightarrow> []
              | Some t \<Rightarrow> if t = [] then [] else [\<lambda>p. ilike (p_name p) (''%'' @ t @ ''%'')]))
        = eligible cat q p" for p :: product
    by (cases cat; cases q) (simp_all add: eligible_def)
  then show ?thesis
    by (simp add: getProducts_def)
qed

lemma getProducts_active: "r \<in> set (getProducts tie lim off cat q s) \<Longrightarrow> p_isActive r"
proof -
  assume "r \<in> set (getProducts tie lim off cat q s)"
  then have "r \<in> set (order_by_desc tie p_createdAt (filter (eligible cat q) (products s)))"
    unfolding getProducts_page by (auto dest!: in_set_takeD in_set_dropD)
  then show ?thesis by (simp add: set_order_by_desc eligible_def)
qed

lemma getFeaturedProducts_active:
  "r \<in> set (getFeaturedProducts tie lim s) \<Longrightarrow> p_isActive r"
proof -
  assume "r \<in> set (getFeaturedProducts tie lim s)"
  then have "r \<in> set (order_by_desc tie p_createdAt
       (filter (\<lambda>p. p_isActive p \<and> p_isFeatured p) (products s)))"
    unfolding getFeaturedProducts_def by (rule in_set_takeD)
  then show ?thesis by (simp add: set_order_by_desc)
qed

text \<open>The filters at work: a falsy category or search adds no condition, and the search
  ignores the case of letters.\<close>

lemma ilike_sample:
  "ilike ''Red Shoe'' (''%'' @ ''SHOE'' @ ''%'')"
  "\<not> ilike ''Green Boot'' (''%'' @ ''SHOE'' @ ''%'')"
  by code_simp+

lemma getProducts_falsy_filters:
  "getProducts tie lim off (Some 0) (Some []) s = getProducts tie lim off None None s"
  by (simp add: getProducts_def)

lemma getProducts_search_sample:
  "getProducts p_id None None (Some 1) (Some ''SHOE'') sample_db = [blue_shoe, red_shoe]"
proof -
  have m: "ilike (p_name red_shoe) (''%'' @ ''SHOE'' @ ''%'')"
      "ilike (p_name blue_shoe) (''%'' @ ''SHOE'' @ ''%'')"
      "\<not> ilike (p_name green_boot) (''%'' @ ''SHOE'' @ ''%'')"
      "\<not> ilike (p_name black_pump) (''%'' @ ''SHOE'' @ ''%'')"
    by code_simp+
  have a: "products sample_db = [red_shoe, blue_shoe, green_boot, old_clog, black_pump]"
    by (simp add: sample_db_def)
  have b: "p_isActive red_shoe" "p_isActive blue_shoe" "p_isActive green_boot"
      "\<not> p_isActive old_clog" "p_isActive black_pump"
      "p_categoryId red_shoe = Some 1" "p_categoryId blue_shoe = Some 1"
      "p_createdAt red_shoe = 100" "p_createdAt blue_shoe = 200"
      "p_id red_shoe = 1" "p_id blue_shoe = 2"
    by (simp_all add: sample_rows)
  show ?thesis
    using m by (simp add: getProducts_def a b order_by_desc_def)
qed

subsection \<open>Statistics\<close>

lemma show_nat_not_empty: "show_nat n \<noteq> []"
  by (subst show_nat.simps) simp

lemma show_decimal_not_empty: "show_decimal sc v \<noteq> []"
  by (simp add: show_decimal_def Let_def show_nat_not_empty)

lemma digit_chars:
  "digit_char 0 = CHR ''0''" "digit_char 1 = CHR ''1''" "digit_char 2 = CHR ''2''"
  "digit_char 3 = CHR ''3''" "digit_char 4 = CHR ''4''" "digit_char 5 = CHR ''5''"
  "digit_char 6 = CHR ''6''" "digit_char 7 = CHR ''7''" "digit_char 8 = CHR ''8''"
  "digit_char 9 = CHR ''9''" "digit_char (Suc 0) = CHR ''1''"
  by code_simp+

lemma show_decimal_zero: "show_decimal 0 0 = ''0''"
  by (simp add: show_decimal_def show_nat.simps digit_chars)

lemma count_kept: "js_or_value (sql_count rows) (Num 0) = Str (show_nat (length rows))"
  by (simp add: sql_count_def show_nat_not_empty)

lemma totalProducts_count:
  "totalProducts (getOrderStats sc s) = Str (show_nat (length (products s)))"
  by (simp add: getOrderStats_def count_kept)

text \<open>
  Claim C2. A product that is not active is in no answer of \<open>getProducts\<close> and in no answer
  of \<open>getFeaturedProducts\<close>, whatever the limit, the offset, the category, the search text
  and the order of products of equal creation time. It is counted all the same by
  \<open>getOrderStats\<close>, whose \<open>totalProducts\<close> is the number of all the rows of the table (handed
  over as the text of its digits): taking the row out lowers the count by one.
\<close>

theorem inactive_hidden_but_counted:
  assumes "\<not> p_isActive p" and "p \<in> set (products s)"
  shows "p \<notin> set (getProducts tie lim off cat q s)
         \<and> p \<notin> set (getFeaturedProducts tie' lim' s)
         \<and> totalProducts (getOrderStats sc s) = Str (show_nat (length (products s)))
         \<and> totalProducts (getOrderStats sc (s\<lparr> products := remove1 p (products s) \<rparr>))
             = Str (show_nat (length (products s) - 1))
         \<and> 1 \<le> length (products s)"
proof -
  from assms(1) have "p \<notin> set (getProducts tie lim off cat q s)"
    by (auto dest: getProducts_active)
  moreover from assms(1) have "p \<notin> set (getFeaturedProducts tie' lim' s)"
    by (auto dest: getFeaturedProducts_active)
  moreover from assms(2) have "1 \<le> length (products s)"
    by (cases "products s") simp_all
  moreover from assms(2) have "length (remove1 p (products s)) = length (products s) - 1"
    by (simp add: length_remove1)
  ultimately show ?thesis
    by (simp add: totalProducts_count)
qed

theorem inactive_hidden_but_counted_witness:
  "old_clog \<notin> set (getProducts p_id (Some 100) (Some 0) (Some 1) (Some ''clog'') sample_db)
   \<and> old_clog \<notin> set (getFeaturedProducts p_id None sample_db)
   \<and> totalProducts (getOrderStats 2 sample_db) = Str ''5''
   \<and> totalProducts (getOrderStats 2
        (sample_db\<lparr> products := remove1 old_clog (products sample_db) \<rparr>)) = Str ''4''"
proof -
  have a: "\<not> p_isActive old_clog" by (simp add: sample_rows)
  have b: "old_clog \<in> set (products sample_db)" by (simp add: sample_db_def)
  have c: "length (products sample_db) = 5" by (simp add: sample_db_def)
  have d: "show_nat 5 = ''5''" "show_nat 4 = ''4''"
    by (simp_all add: show_nat.simps digit_chars)
  from inactive_hidden_but_counted [OF a b, where tie = p_id and lim = "Some 100"
      and off = "Some 0" and cat = "Some 1" and q = "Some ''clog''" and tie' = p_id
      and lim' = None and sc = 2]
  show ?thesis by (simp add: c d)
qed

text \<open>
  What \<open>getOrderStats\<close> answers in every state: the three counts as the texts of their
  digits, which \<open>|| 0\<close> leaves as they are, and the revenue as the text of the sum of the
  totals, or \<open>''0''\<close> when there is no order.
\<close>

lemma getOrderStats_snapshot:
  "totalOrders (getOrderStats sc s) = Str (show_nat (length (orders s)))
   \<and> totalRevenue (getOrderStats sc s) =
       (if orders s = [] then show_decimal 0 0
        else show_decimal sc (sum_list (map o_total (orders s))))
   \<and> totalProducts (getOrderStats sc s) = Str (show_nat (length (products s)))
   \<and> totalCustomers (getOrderStats sc s) =
       Str (show_nat (length (filter (\<lambda>u. u_role u = ''user'') (users s))))"
proof (cases "orders s")
  case Nil
  then show ?thesis
    by (simp add: getOrderStats_def count_kept show_decimal_zero)
next
  case (Cons x xs)
  then show ?thesis
    by (simp add: getOrderStats_def count_kept show_decimal_not_empty)
qed

lemma getOrderStats_sample:
  "totalOrders (getOrderStats 2 sample_db) = Str ''2''
   \<and> totalRevenue (getOrderStats 2 sample_db) = ''63.16''
   \<and> totalProducts (getOrderStats 2 sample_db) = Str ''5''
   \<and> totalCustomers (getOrderStats 2 sample_db) = Str ''1''"
proof -
  have b: "length (orders sample_db) = 2" "orders sample_db \<noteq> []"
      "sum_list (map o_total (orders sample_db)) = 6316"
      "length (products sample_db) = 5"
      "length (filter (\<lambda>u. u_role u = ''user'') (users sample_db)) = 1"
    by (simp_all add: sample_db_def sample_rows)
  have d: "show_decimal 2 6316 = ''63.16''"
    by (simp add: show_decimal_def show_nat.simps digit_chars Let_def)
  have e: "show_nat 5 = ''5''" "show_nat 2 = ''2''" "show_nat 1 = ''1''"
    by (simp_all add: show_nat.simps digit_chars)
  from getOrderStats_snapshot [where s = sample_db and sc = 2]
  show ?thesis
    by (simp only: b d e if_False)
qed

text \<open>
  Claim C5. With no order in the database \<open>getOrderStats\<close> answers \<open>totalRevenue = ''0''\<close>,
  as claimed, but \<open>totalOrders\<close> is the text \<open>''0''\<close> and not the number \<open>0\<close>: \<open>count(*)\<close> comes
  back as text, the text \<open>''0''\<close> is truthy, and \<open>|| 0\<close> leaves it as it is.
\<close>

theorem getOrderStats_zero_orders:
  "orders fresh_db = []
   \<and> totalOrders (getOrderStats 2 fresh_db) = Str ''0''
   \<and> totalOrders (getOrderStats 2 fresh_db) \<noteq> Num 0
   \<and> totalRevenue (getOrderStats 2 fresh_db) = ''0''"
proof -
  have a: "orders fresh_db = []" by (simp add: fresh_db_def)
  have z: "show_nat 0 = ''0''" by (simp add: show_nat.simps digit_chars)
  show ?thesis
    by (simp add: getOrderStats_def sql_count_def a z)
qed

subsection \<open>Pages of products\<close>

lemma strict_of_distinct:
  "sorted_wrt (\<lambda>a b. col b \<le> col a) rs \<Longrightarrow> distinct (map col rs) \<Longrightarrow>
   sorted_wrt (\<lambda>a b. (col b :: int) < col a) rs"
proof (induction rs)
  case Nil
  then show ?case by simp
next
  case (Cons a rs)
  have "col x < col a" if "x \<in> set rs" for x
  proof -
    from that Cons.prems(1) have "col x \<le> col a" by simp
    moreover from Cons.prems(2) have "col a \<notin> col ` set rs" by simp
    with that have "col x \<noteq> col a" by (metis imageI)
    ultimately show ?thesis by simp
  qed
  with Cons show ?case by simp
qed

lemma distinct_map_order_by_desc:
  "distinct (map f (order_by_desc tie col rs)) = distinct (map f rs)"
proof -
  have "mset (map f (order_by_desc tie col rs)) = mset (map f rs)"
    by (simp add: mset_order_by_desc)
  then show ?thesis by (rule mset_eq_imp_distinct_iff)
qed

text \<open>Where no two rows have the same \<open>col\<close>, the order does not depend on \<open>tie\<close>.\<close>

lemma order_by_desc_unique:
  assumes "distinct (map col rs)"
  shows "order_by_desc tie col rs = order_by_desc tie' col rs"
proof -
  let ?f = "\<lambda>r. - col r"
  let ?a = "order_by_desc tie col rs" and ?b = "order_by_desc tie' col rs"
  from assms have inj: "inj_on ?f (set rs)"
    by (auto simp: distinct_map inj_on_def)
  from assms have "distinct rs" by (simp add: distinct_map)
  with inj have d: "distinct (map ?f ?a)" "distinct (map ?f ?b)"
    by (simp_all add: distinct_map set_order_by_desc distinct_order_by_desc)
  have s: "sorted (map ?f ?a)" "sorted (map ?f ?b)"
    unfolding order_by_desc_def by (rule sorted_sort_key)+
  have "set (map ?f ?a) = set (map ?f ?b)"
    by (simp add: set_order_by_desc)
  with s d have "map ?f ?a = map ?f ?b"
    by (intro sorted_distinct_set_unique)
  moreover from inj have "inj_on ?f (set ?a \<union> set ?b)"
    by (simp add: set_order_by_desc)
  ultimately show ?thesis
    by (simp add: inj_on_map_eq_map)
qed

lemma distinct_map_page:
  assumes "distinct (map f rs)"
  shows "distinct (map f (take n (drop m (order_by_desc tie col (filter P rs)))))"
proof -
  from assms have "distinct (map f (order_by_desc tie col (filter P rs)))"
    by (simp add: distinct_map_order_by_desc distinct_map_filter)
  then have "distinct (take n (drop m (map f (order_by_desc tie col (filter P rs)))))"
    by (intro distinct_take distinct_drop)
  then show ?thesis by (simp add: take_map drop_map)
qed

lemma eligible_active: "filter (eligible cat q) rs = filter (eligible cat q) (filter p_isActive rs)"
  by (induction rs) (simp_all add: eligible_def)

lemma eligible_plain: "eligible None None = p_isActive"
  by (rule ext) (simp add: eligible_def)

lemma two_pages: "take 2 (drop 0 rs) @ take 2 (drop 2 rs) = take 4 (drop 0 rs)"
proof -
  have "take (2 + 2) rs = take 2 rs @ take 2 (drop 2 rs)" by (rule take_add)
  then show ?thesis by simp
qed

text \<open>
  Claim C4, as amended. \<open>getProducts\<close> answers the eligible products (the active ones, of
  the category and matching the search when these are given) by falling creation time,
  at most \<open>limit\<close> of them (20 when no limit is given) after skipping \<open>offset\<close> of them (none
  when no offset is given). Products created at the same instant come in an order that the
  database chooses for each query. When the active products have pairwise different
  creation times, the order is strict and is the same in every query, and, with at least
  four active products, the page with limit 2 and offset 0 followed by the page with limit
  2 and offset 2 is the first four rows of the listing: four different products, by
  strictly falling creation time, none of them on both pages.
\<close>

theorem getProducts_paging:
  "getProducts tie lim off cat q s =
     take (default_arg lim 20) (drop (default_arg off 0)
       (order_by_desc tie p_createdAt (filter (eligible cat q) (products s))))
   \<and> mset (order_by_desc tie p_createdAt (filter (eligible cat q) (products s)))
       = mset (filter (eligible cat q) (products s))
   \<and> sorted_wrt (\<lambda>a b. p_createdAt b \<le> p_createdAt a) (getProducts tie lim off cat q s)
   \<and> length (getProducts tie lim off cat q s) \<le> default_arg lim 20
   \<and> (distinct (map p_createdAt (filter p_isActive (products s))) \<longrightarrow>
        sorted_wrt (\<lambda>a b. p_createdAt b < p_createdAt a) (getProducts tie lim off cat q s)
        \<and> getProducts tie' lim off cat q s = getProducts tie lim off cat q s)
   \<and> (distinct (map p_createdAt (filter p_isActive (products s)))
        \<and> 4 \<le> length (filter p_isActive (products s)) \<longrightarrow>
        (let page1 = getProducts tie1 (Some 2) (Some 0) None None s;
             page2 = getProducts tie2 (Some 2) (Some 2) None None s
         in page1 @ page2 = getProducts tie (Some 4) (Some 0) None None s
            \<and> length (page1 @ page2) = 4
            \<and> distinct (page1 @ page2)
            \<and> set page1 \<inter> set page2 = {}
            \<and> sorted_wrt (\<lambda>a b. p_createdAt b < p_createdAt a) (page1 @ page2)))"
proof -
  let ?act = "filter p_isActive (products s)"
  let ?rows = "filter (eligible cat q) (products s)"
  have page: "getProducts tie lim off cat q s =
     take (default_arg lim 20) (drop (default_arg off 0) (order_by_desc tie p_createdAt ?rows))"
    by (rule getProducts_page)
  have perm: "mset (order_by_desc tie p_createdAt ?rows) = mset ?rows"
    by (rule mset_order_by_desc)
  have srt: "sorted_wrt (\<lambda>a b. p_createdAt b \<le> p_createdAt a) (getProducts tie lim off cat q s)"
    unfolding page by (rule sorted_page)
  have len: "length (getProducts tie lim off cat q s) \<le> default_arg lim 20"
    unfolding page by simp
  have strict: "sorted_wrt (\<lambda>a b. p_createdAt b < p_createdAt a) (getProducts tie lim off cat q s)
        \<and> getProducts tie' lim off cat q s = getProducts tie lim off cat q s"
    if d: "distinct (map p_createdAt ?act)"
  proof -
    have rows: "?rows = filter (eligible cat q) ?act"
      by (rule eligible_active)
    from d have "distinct (map p_createdAt
        (take (default_arg lim 20) (drop (default_arg off 0)
           (order_by_desc tie p_createdAt (filter (eligible cat q) ?act)))))"
      by (rule distinct_map_page)
    then have "distinct (map p_createdAt (getProducts tie lim off cat q s))"
      unfolding page rows [symmetric] .
    with srt have one: "sorted_wrt (\<lambda>a b. p_createdAt b < p_createdAt a)
        (getProducts tie lim off cat q s)"
      by (rule strict_of_distinct)
    from d have "distinct (map p_createdAt ?rows)"
      unfolding rows by (rule distinct_map_filter)
    then have "order_by_desc tie' p_createdAt ?rows = order_by_desc tie p_createdAt ?rows"
      by (rule order_by_desc_unique)
    then have two: "getProducts tie' lim off cat q s = getProducts tie lim off cat q s"
      by (simp add: getProducts_page)
    from one two show ?thesis ..
  qed
  have pages: "(let page1 = getProducts tie1 (Some 2) (Some 0) None None s;
             page2 = getProducts tie2 (Some 2) (Some 2) None None s
         in page1 @ page2 = getProducts tie (Some 4) (Some 0) None None s
            \<and> length (page1 @ page2) = 4
            \<and> distinct (page1 @ page2)
            \<and> set page1 \<inter> set page2 = {}
            \<and> sorted_wrt (\<lambda>a b. p_createdAt b < p_createdAt a) (page1 @ page2))"
    if d: "distinct (map p_createdAt ?act)" and four: "4 \<le> length ?act"
  proof -
    define rs where "rs = order_by_desc tie p_createdAt ?act"
    from d have u1: "order_by_desc tie1 p_createdAt ?act = rs"
      and u2: "order_by_desc tie2 p_createdAt ?act = rs"
      unfolding rs_def by (rule order_by_desc_unique)+
    have p1: "getProducts tie1 (Some 2) (Some 0) None None s = take 2 (drop 0 rs)"
      and p2: "getProducts tie2 (Some 2) (Some 2) None None s = take 2 (drop 2 rs)"
      and p4: "getProducts tie (Some 4) (Some 0) None None s = take 4 (drop 0 rs)"
      by (simp_all add: getProducts_page eligible_plain u1 u2 rs_def)
    have joined: "take 2 (drop 0 rs) @ take 2 (drop 2 rs) = take 4 (drop 0 rs)"
      by (rule two_pages)
    from d have dm: "distinct (map p_createdAt (take 4 (drop 0 (order_by_desc tie p_createdAt
        (filter (\<lambda>p. True) ?act)))))"
      by (rule distinct_map_page)
    then have dm': "distinct (map p_createdAt (take 4 (drop 0 rs)))"
      by (simp add: rs_def)
    then have dist: "distinct (take 4 (drop 0 rs))"
      by (simp add: distinct_map)
    from four have lenrs: "length (take 4 (drop 0 rs)) = 4"
      by (simp add: rs_def length_order_by_desc)
    have "sorted_wrt (\<lambda>a b. p_createdAt b \<le> p_createdAt a) (take 4 (drop 0 rs))"
      unfolding rs_def by (rule sorted_page)
    from this dm' have sorted4: "sorted_wrt (\<lambda>a b. p_createdAt b < p_createdAt a)
        (take 4 (drop 0 rs))"
      by (rule strict_of_distinct)
    from dist have disj: "set (take 2 (drop 0 rs)) \<inter> set (take 2 (drop 2 rs)) = {}"
      unfolding joined [symmetric] by simp
    show ?thesis
      unfolding Let_def p1 p2 p4 joined
      using dist lenrs sorted4 disj by simp
  qed
  from page perm srt len strict pages
  show ?thesis by blast
qed

theorem getProducts_paging_witness:
  "getProducts p_id (Some 2) (Some 0) None None sample_db = [black_pump, green_boot]
   \<and> getProducts (\<lambda>p. - p_id p) (Some 2) (Some 2) None None sample_db = [blue_shoe, red_shoe]
   \<and> sorted_wrt (\<lambda>a b. p_createdAt b < p_createdAt a)
        ([black_pump, green_boot] @ [blue_shoe, red_shoe])
   \<and> [black_pump, green_boot] @ [blue_shoe, red_shoe]
        = getProducts p_id (Some 4) (Some 0) None None sample_db
   \<and> distinct ([black_pump, green_boot] @ [blue_shoe, red_shoe])
   \<and> set [black_pump, green_boot] \<inter> set [blue_shoe, red_shoe] = {}"
proof -
  have a: "filter p_isActive (products sample_db) = [red_shoe, blue_shoe, green_boot, black_pump]"
    by (simp add: sample_db_def sample_rows)
  have t: "p_createdAt red_shoe = 100" "p_createdAt blue_shoe = 200"
      "p_createdAt green_boot = 300" "p_createdAt black_pump = 500"
      "p_id red_shoe = 1" "p_id blue_shoe = 2" "p_id green_boot = 3" "p_id black_pump = 5"
    by (simp_all add: sample_rows)
  have b: "order_by_desc p_id p_createdAt [red_shoe, blue_shoe, green_boot, black_pump]
             = [black_pump, green_boot, blue_shoe, red_shoe]"
      "order_by_desc (\<lambda>p. - p_id p) p_createdAt [red_shoe, blue_shoe, green_boot, black_pump]
             = [black_pump, green_boot, blue_shoe, red_shoe]"
    by (simp_all add: order_by_desc_def t)
  have c: "getProducts p_id (Some 2) (Some 0) None None sample_db = [black_pump, green_boot]"
      "getProducts (\<lambda>p. - p_id p) (Some 2) (Some 2) None None sample_db = [blue_shoe, red_shoe]"
    by (simp_all add: getProducts_page eligible_plain a b)
  have h: "distinct (map p_createdAt (filter p_isActive (products sample_db)))
      \<and> 4 \<le> length (filter p_isActive (products sample_db))"
    by (simp add: a t)
  note T = getProducts_paging [where tie = p_id and tie' = p_id and ?tie1.0 = p_id
      and ?tie2.0 = "\<lambda>p. - p_id p" and lim = "Some 4" and off = "Some 0" and cat = None
      and q = None and s = sample_db]
  from T have "distinct (map p_createdAt (filter p_isActive (products sample_db)))
        \<and> 4 \<le> length (filter p_isActive (products sample_db)) \<longrightarrow>
        (let page1 = getProducts p_id (Some 2) (Some 0) None None sample_db;
             page2 = getProducts (\<lambda>p. - p_id p) (Some 2) (Some 2) None None sample_db
         in page1 @ page2 = getProducts p_id (Some 4) (Some 0) None None sample_db
            \<and> length (page1 @ page2) = 4
            \<and> distinct (page1 @ page2)
            \<and> set page1 \<inter> set page2 = {}
            \<and> sorted_wrt (\<lambda>a b. p_createdAt b < p_createdAt a) (page1 @ page2))"
    by (elim conjE)
  with h have "(let page1 = getProducts p_id (Some 2) (Some 0) None None sample_db;
             page2 = getProducts (\<lambda>p. - p_id p) (Some 2) (Some 2) None None sample_db
         in page1 @ page2 = getProducts p_id (Some 4) (Some 0) None None sample_db
            \<and> length (page1 @ page2) = 4
            \<and> distinct (page1 @ page2)
            \<and> set page1 \<inter> set page2 = {}
            \<and> sorted_wrt (\<lambda>a b. p_createdAt b < p_createdAt a) (page1 @ page2))"
    by (rule rev_mp)
  then have pages: "[black_pump, green_boot] @ [blue_shoe, red_shoe]
        = getProducts p_id (Some 4) (Some 0) None None sample_db
      \<and> length ([black_pump, green_boot] @ [blue_shoe, red_shoe]) = 4
      \<and> distinct ([black_pump, green_boot] @ [blue_shoe, red_shoe])
      \<and> set [black_pump, green_boot] \<inter> set [blue_shoe, red_shoe] = {}
      \<and> sorted_wrt (\<lambda>a b. p_createdAt b < p_createdAt a)
           ([black_pump, green_boot] @ [blue_shoe, red_shoe])"
    unfolding Let_def c .
  from c pages show ?thesis by blast
qed

theorem getProducts_ties_counterexample:
  "4 \<le> length (filter p_isActive (products tied_db))
   \<and> \<not> sorted_wrt (\<lambda>a b. p_createdAt b < p_createdAt a)
         (getProducts p_id (Some 2) (Some 0) None None tied_db)
   \<and> map p_id (getProducts p_id (Some 2) (Some 0) None None tied_db) = [1, 2]
   \<and> map p_id (getProducts (\<lambda>p. - p_id p) (Some 2) (Some 2) None None tied_db) = [2, 1]
   \<and> set (getProducts p_id (Some 2) (Some 0) None None tied_db)
       \<inter> set (getProducts (\<lambda>p. - p_id p) (Some 2) (Some 2) None None tied_db) \<noteq> {}"
proof -
  define n e so w where "n = sample_product 1 ''North'' ''north'' False True 100"
    and "e = sample_product 2 ''East'' ''east'' False True 100"
    and "so = sample_product 3 ''South'' ''south'' False True 100"
    and "w = sample_product 4 ''West'' ''west'' False True 100"
  note rows = n_def e_def so_def w_def
  have a: "products tied_db = [n, e, so, w]"
    by (simp add: tied_db_def fresh_db_def rows)
  have b: "p_isActive n" "p_isActive e" "p_isActive so" "p_isActive w"
      "p_createdAt n = 100" "p_createdAt e = 100" "p_createdAt so = 100" "p_createdAt w = 100"
      "p_id n = 1" "p_id e = 2" "p_id so = 3" "p_id w = 4"
    by (simp_all add: rows sample_product_def)
  have c: "getProducts p_id (Some 2) (Some 0) None None tied_db = [n, e]"
      "getProducts (\<lambda>p. - p_id p) (Some 2) (Some 2) None None tied_db = [e, n]"
    by (simp_all add: getProducts_page eligible_plain a b order_by_desc_def)
  show ?thesis
    unfolding c by (simp add: a b)
qed

subsection \<open>The cart\<close>

lemma filter_update_where:
  assumes "\<And>r. P (f r) = P r"
  shows "filter P (update_where c f rs) = update_where c f (filter P rs)"
  by (induction rs) (simp_all add: update_where_def assms)

lemma addToCart_absent:
  assumes "cart_lines (ici_userId x) (ici_productId x) s = []"
  shows "addToCart x s =
     (Some \<lparr> ci_id = cartItemsSeq s + 1, ci_userId = ici_userId x,
             ci_productId = ici_productId x,
             ci_quantity = default_arg (ici_quantity x) 1 \<rparr>,
      s\<lparr> cartItems := cartItems s @
             [\<lparr> ci_id = cartItemsSeq s + 1, ci_userId = ici_userId x,
                ci_productId = ici_productId x,
                ci_quantity = default_arg (ici_quantity x) 1 \<rparr>],
         cartItemsSeq := cartItemsSeq s + 1 \<rparr>)"
  using assms by (simp add: addToCart_def cart_lines_def Let_def)

lemma addToCart_present:
  assumes "cart_lines (ici_userId x) (ici_productId x) s = e # es"
  shows "addToCart x s =
     (first_row (returning (\<lambda>r. ci_id r = ci_id e)
        (\<lambda>r. r\<lparr> ci_quantity := js_or (ci_quantity e) 0 + js_or_opt (ici_quantity x) 1 \<rparr>)
        (cartItems s)),
      s\<lparr> cartItems := update_where (\<lambda>r. ci_id r = ci_id e)
        (\<lambda>r. r\<lparr> ci_quantity := js_or (ci_quantity e) 0 + js_or_opt (ici_quantity x) 1 \<rparr>)
        (cartItems s) \<rparr>)"
  using assms by (simp add: addToCart_def cart_lines_def Let_def)

lemma cart_lines_update_where:
  "cart_lines u p (s\<lparr> cartItems := update_where c (\<lambda>r. r\<lparr> ci_quantity := n \<rparr>) (cartItems s) \<rparr>)
     = update_where c (\<lambda>r. r\<lparr> ci_quantity := n \<rparr>) (cart_lines u p s)"
  by (simp add: cart_lines_def filter_update_where)

text \<open>
  Two calls for a pair that has no line yet: the first inserts the line, the second
  rewrites it, so that there is one line and not two; its quantity is the first
  quantity plus the second, with \<open>1\<close> standing in for a second quantity of \<open>0\<close>.
\<close>

lemma addToCart_twice:
  assumes "cart_lines u p s = []"
  shows "cart_lines u p
        (snd (addToCart \<lparr> ici_userId = u, ici_productId = p, ici_quantity = Some q2 \<rparr>
           (snd (addToCart \<lparr> ici_userId = u, ici_productId = p, ici_quantity = Some q1 \<rparr> s))))
      = [\<lparr> ci_id = cartItemsSeq s + 1, ci_userId = u, ci_productId = p,
            ci_quantity = q1 + (if q2 = 0 then 1 else q2) \<rparr>]"
proof -
  let ?x = "\<lambda>n. \<lparr> ici_userId = u, ici_productId = p, ici_quantity = Some n \<rparr>"
  let ?new = "\<lparr> ci_id = cartItemsSeq s + 1, ci_userId = u, ci_productId = p,
                ci_quantity = q1 \<rparr>"
  let ?s1 = "snd (addToCart (?x q1) s)"
  define n where "n = q1 + (if q2 = 0 then 1 else q2)"
  from assms have first: "cart_lines u p ?s1 = [?new]"
    using addToCart_absent [of "?x q1" s] by (simp add: cart_lines_def)
  have q: "js_or (ci_quantity ?new) 0 + js_or_opt (Some q2) 1 = n"
    by (simp add: js_or_def n_def)
  have "snd (addToCart (?x q2) ?s1) =
      ?s1\<lparr> cartItems := update_where (\<lambda>r. ci_id r = ci_id ?new)
        (\<lambda>r. r\<lparr> ci_quantity := n \<rparr>) (cartItems ?s1) \<rparr>"
    using addToCart_present [of "?x q2" ?s1 ?new "[]"] first
    unfolding q [symmetric] by simp
  then have "cart_lines u p (snd (addToCart (?x q2) ?s1)) =
      update_where (\<lambda>r. ci_id r = ci_id ?new) (\<lambda>r. r\<lparr> ci_quantity := n \<rparr>)
        (cart_lines u p ?s1)"
    by (simp only: cart_lines_update_where)
  then have "cart_lines u p (snd (addToCart (?x q2) ?s1)) =
      [\<lparr> ci_id = cartItemsSeq s + 1, ci_userId = u, ci_productId = p, ci_quantity = n \<rparr>]"
    unfolding first by (simp add: update_where_def)
  then show ?thesis
    unfolding n_def .
qed

text \<open>
  Claim C1. From a database with no line for user 1 and product 5, \<open>addToCart\<close> with the
  quantity 2 and then with the quantity 0 leaves one line, as claimed, but its quantity
  is 3 and not \<open>2 + 0\<close>: the line is found, and \<open>(2 || 0) + (0 || 1)\<close> is written.
\<close>

theorem addToCart_two_then_zero:
  "cart_lines 1 5 fresh_db = []
   \<and> cart_lines 1 5
        (snd (addToCart \<lparr> ici_userId = 1, ici_productId = 5, ici_quantity = Some 0 \<rparr>
           (snd (addToCart \<lparr> ici_userId = 1, ici_productId = 5, ici_quantity = Some 2 \<rparr>
              fresh_db))))
      = [\<lparr> ci_id = 1, ci_userId = 1, ci_productId = 5, ci_quantity = 3 \<rparr>]
   \<and> (3 :: int) \<noteq> 2 + 0"
  by (simp add: addToCart_def cart_lines_def fresh_db_def sample_db_def Let_def js_or_def
      update_where_def returning_def)

text \<open>
  Claim C10. With the quantity \<open>0\<close>, \<open>addToCart\<close> adds \<open>1\<close> to the quantity of the line it
  finds for the user and the product, since \<open>0 || 1\<close> is \<open>1\<close>; the answer is that line as
  rewritten when ids are not repeated in the table. When there is no such line, it
  inserts one whose quantity is the \<open>0\<close> it was given.
\<close>

theorem addToCart_zero:
  "(cart_lines u p s = e # es \<longrightarrow>
      cartItems (snd (addToCart \<lparr> ici_userId = u, ici_productId = p, ici_quantity = Some 0 \<rparr> s))
        = map (\<lambda>r. if ci_id r = ci_id e then r\<lparr> ci_quantity := ci_quantity e + 1 \<rparr> else r)
            (cartItems s)
      \<and> cart_lines u p
           (snd (addToCart \<lparr> ici_userId = u, ici_productId = p, ici_quantity = Some 0 \<rparr> s))
        = e\<lparr> ci_quantity := ci_quantity e + 1 \<rparr>
          # map (\<lambda>r. if ci_id r = ci_id e then r\<lparr> ci_quantity := ci_quantity e + 1 \<rparr> else r) es
      \<and> (distinct (map ci_id (cartItems s)) \<longrightarrow>
           fst (addToCart \<lparr> ici_userId = u, ici_productId = p, ici_quantity = Some 0 \<rparr> s)
             = Some (e\<lparr> ci_quantity := ci_quantity e + 1 \<rparr>)))
   \<and> (cart_lines u p s = [] \<longrightarrow>
        addToCart \<lparr> ici_userId = u, ici_productId = p, ici_quantity = Some 0 \<rparr> s =
          (Some \<lparr> ci_id = cartItemsSeq s + 1, ci_userId = u, ci_productId = p, ci_quantity = 0 \<rparr>,
           s\<lparr> cartItems := cartItems s @
                  [\<lparr> ci_id = cartItemsSeq s + 1, ci_userId = u, ci_productId = p,
                     ci_quantity = 0 \<rparr>],
              cartItemsSeq := cartItemsSeq s + 1 \<rparr>))"
proof -
  let ?x = "\<lparr> ici_userId = u, ici_productId = p, ici_quantity = Some 0 \<rparr>"
  have absent: "addToCart ?x s =
          (Some \<lparr> ci_id = cartItemsSeq s + 1, ci_userId = u, ci_productId = p, ci_quantity = 0 \<rparr>,
           s\<lparr> cartItems := cartItems s @
                  [\<lparr> ci_id = cartItemsSeq s + 1, ci_userId = u, ci_productId = p,
                     ci_quantity = 0 \<rparr>],
              cartItemsSeq := cartItemsSeq s + 1 \<rparr>)"
    if "cart_lines u p s = []"
    using that addToCart_absent [of ?x s] by simp
  have present:
    "cartItems (snd (addToCart ?x s))
        = map (\<lambda>r. if ci_id r = ci_id e then r\<lparr> ci_quantity := ci_quantity e + 1 \<rparr> else r)
            (cartItems s)
     \<and> cart_lines u p (snd (addToCart ?x s))
        = e\<lparr> ci_quantity := ci_quantity e + 1 \<rparr>
          # map (\<lambda>r. if ci_id r = ci_id e then r\<lparr> ci_quantity := ci_quantity e + 1 \<rparr> else r) es
     \<and> (distinct (map ci_id (cartItems s)) \<longrightarrow>
           fst (addToCart ?x s) = Some (e\<lparr> ci_quantity := ci_quantity e + 1 \<rparr>))"
    if lines: "cart_lines u p s = e # es"
  proof -
    have q: "js_or (ci_quantity e) 0 + js_or_opt (Some 0) 1 = ci_quantity e + 1"
      by (simp add: js_or_def)
    from lines have res: "addToCart ?x s =
        (first_row (returning (\<lambda>r. ci_id r = ci_id e)
           (\<lambda>r. r\<lparr> ci_quantity := ci_quantity e + 1 \<rparr>) (cartItems s)),
         s\<lparr> cartItems := update_where (\<lambda>r. ci_id r = ci_id e)
           (\<lambda>r. r\<lparr> ci_quantity := ci_quantity e + 1 \<rparr>) (cartItems s) \<rparr>)"
      using addToCart_present [of ?x s e es] q by simp
    have rows: "cartItems (snd (addToCart ?x s))
        = map (\<lambda>r. if ci_id r = ci_id e then r\<lparr> ci_quantity := ci_quantity e + 1 \<rparr> else r)
            (cartItems s)"
      unfolding res by (simp add: update_where_def)
    have found: "cart_lines u p (snd (addToCart ?x s))
        = e\<lparr> ci_quantity := ci_quantity e + 1 \<rparr>
          # map (\<lambda>r. if ci_id r = ci_id e then r\<lparr> ci_quantity := ci_quantity e + 1 \<rparr> else r) es"
      unfolding res snd_conv cart_lines_update_where lines by (simp add: update_where_def)
    have answer: "fst (addToCart ?x s) = Some (e\<lparr> ci_quantity := ci_quantity e + 1 \<rparr>)"
      if ids: "distinct (map ci_id (cartItems s))"
    proof -
      from lines have "e \<in> set (cart_lines u p s)" by simp
      then have "e \<in> set (cartItems s)" by (simp add: cart_lines_def)
      with ids have "filter (\<lambda>r. ci_id r = ci_id e) (cartItems s) = [e]"
        by (rule filter_key_unique)
      then show ?thesis
        unfolding res by (simp add: first_row_returning)
    qed
    from rows found answer show ?thesis by blast
  qed
  from absent present show ?thesis by blast
qed

theorem addToCart_zero_witness:
  "cart_lines 1 5 sample_db = [line1]
   \<and> ci_quantity line1 = 2
   \<and> fst (addToCart \<lparr> ici_userId = 1, ici_productId = 5, ici_quantity = Some 0 \<rparr> sample_db)
       = Some (line1\<lparr> ci_quantity := 3 \<rparr>)
   \<and> cartItems (snd (addToCart \<lparr> ici_userId = 1, ici_productId = 5, ici_quantity = Some 0 \<rparr> sample_db))
       = [line1\<lparr> ci_quantity := 3 \<rparr>]
   \<and> cart_lines 2 5 sample_db = []
   \<and> addToCart \<lparr> ici_userId = 2, ici_productId = 5, ici_quantity = Some 0 \<rparr> sample_db
       = (Some \<lparr> ci_id = 2, ci_userId = 2, ci_productId = 5, ci_quantity = 0 \<rparr>,
          sample_db\<lparr> cartItems := [line1, \<lparr> ci_id = 2, ci_userId = 2, ci_productId = 5,
                                             ci_quantity = 0 \<rparr>],
                     cartItemsSeq := 2 \<rparr>)"
proof -
  have a: "cart_lines 1 5 sample_db = [line1]" "cartItems sample_db = [line1]"
      "ci_quantity line1 = 2" "cart_lines 2 5 sample_db = []" "cartItemsSeq sample_db = 1"
    by (simp_all add: cart_lines_def sample_db_def line1_def)
  from addToCart_zero [where u = 1 and p = 5 and s = sample_db and e = line1 and es = "[]"]
       addToCart_zero [where u = 2 and p = 5 and s = sample_db and e = line1 and es = "[]"]
  show ?thesis
    by (simp add: a)
qed

end
